theory Spec2Isabelle
  imports Complex_Main
begin

section \<open>The HTTP gateway of \<^verbatim>\<open>src/apps.ts\<close>\<close>

text \<open>
  The file holds three classes: \<^verbatim>\<open>App\<close> (the gateway base), and \<^verbatim>\<open>PublicApp\<close> and
  \<^verbatim>\<open>PrivateApp\<close>, which extend it with their routes. The libraries they call (express,
  compression, morgan, body-parser, express-validator, cors), the controllers and the
  logger are not part of the file: the model records what the file hands to them, in the
  order it does so, and takes the outcome of the server's bind as an argument.
\<close>

subsection \<open>Values\<close>

text \<open>
  An error as \<^verbatim>\<open>handleErrors\<close> reads it. \<^verbatim>\<open>OrbError\<close> stands for every instance of the
  domain error class (\<^verbatim>\<open>error instanceof OrbError\<close>), \<^verbatim>\<open>Error\<close> for every other one.
\<close>

datatype js_error =
    Error (message: string) (stack: "string option")
  | OrbError (message: string) (stack: "string option") (httpStatusCode: int)

text \<open>
  A JavaScript number: a finite double is a real number; the model leaves rounding and
  the sign of zero out.
\<close>

datatype js_number = NaN | PosInfinity | NegInfinity | Finite real

text \<open>The argument \<^verbatim>\<open>port: number | string\<close> of \<^verbatim>\<open>start\<close>.\<close>

datatype port_arg = PortNumber js_number | PortString string

text \<open>A JSON value, as far as \<^verbatim>\<open>res.json\<close> is given one here.\<close>

datatype json = JString string | JObject "(string \<times> json) list"

text \<open>What is raised when a property of \<^verbatim>\<open>undefined\<close> is read.\<close>

datatype exception = TypeError

subsection \<open>The logger\<close>

text \<open>
  A winston logger instance, modelled by the calls it has received, oldest first.
\<close>

datatype log_call = info string | error string

type_synonym LoggerInstance = "log_call list"

definition logger_info :: "string \<Rightarrow> LoggerInstance \<Rightarrow> LoggerInstance" where
  "logger_info msg lg = lg @ [info msg]"

definition logger_error :: "string \<Rightarrow> LoggerInstance \<Rightarrow> LoggerInstance" where
  "logger_error msg lg = lg @ [error msg]"

subsection \<open>The CORS policy\<close>

record CorsOptions =
  allowedHeaders :: "string list"
  credentials :: bool
  methods :: string
  origin :: string
  preflightContinue :: bool

subsection \<open>The express server\<close>

text \<open>
  A dependency handed to a controller: an object of one of the six classes the file
  imports (lines 13 to 18), named by its identity.
\<close>

datatype dependency =
    WalletHandler nat
  | TokenHandler nat
  | PeerHandler nat
  | TransactionHandler nat
  | BlockHandler nat
  | MessageBroker nat

text \<open>The stream given to morgan; the file builds one, \<^verbatim>\<open>logStream\<close>.\<close>

datatype StreamOptions = logStream

text \<open>
  What the file registers on the server. A controller is recorded as the call that built
  it: the function of \<^verbatim>\<open>publicApiController\<close> or \<^verbatim>\<open>privateApiController\<close> and the
  arguments it was given. \<^verbatim>\<open>handleErrorsMiddleware\<close> is the arrow function of lines 108
  and 131, which forwards to \<^verbatim>\<open>this.handleErrors\<close>.
\<close>

datatype middleware =
    compression
  | morgan string StreamOptions
  | bodyParser_json
  | bodyParser_urlencoded bool
  | expressValidator
  | cors CorsOptions
  | handleErrorsMiddleware
  | publicApiController string "dependency list"
  | privateApiController string "dependency list"

datatype http_method = GET | POST | OPTIONS

datatype layer =
    use middleware
  | route http_method string middleware

text \<open>
  The server: the layers in registration order, the settings written with \<^verbatim>\<open>set\<close>, and
  the calls of \<^verbatim>\<open>listen\<close> made so far.
\<close>

record express =
  layers :: "layer list"
  settings :: "string \<rightharpoonup> port_arg"
  listening :: "(port_arg \<times> string) list"

definition express_new :: express where
  "express_new = \<lparr>layers = [], settings = Map.empty, listening = []\<rparr>"

definition server_use :: "middleware \<Rightarrow> express \<Rightarrow> express" where
  "server_use m srv = srv\<lparr>layers := layers srv @ [use m]\<rparr>"

definition server_get :: "string \<Rightarrow> middleware \<Rightarrow> express \<Rightarrow> express" where
  "server_get path h srv = srv\<lparr>layers := layers srv @ [route GET path h]\<rparr>"

definition server_post :: "string \<Rightarrow> middleware \<Rightarrow> express \<Rightarrow> express" where
  "server_post path h srv = srv\<lparr>layers := layers srv @ [route POST path h]\<rparr>"

definition server_options :: "string \<Rightarrow> middleware \<Rightarrow> express \<Rightarrow> express" where
  "server_options path h srv = srv\<lparr>layers := layers srv @ [route OPTIONS path h]\<rparr>"

definition server_set :: "string \<Rightarrow> port_arg \<Rightarrow> express \<Rightarrow> express" where
  "server_set key v srv = srv\<lparr>settings := (settings srv)(key \<mapsto> v)\<rparr>"

definition server_listen :: "port_arg \<Rightarrow> string \<Rightarrow> express \<Rightarrow> express" where
  "server_listen p bind srv = srv\<lparr>listening := listening srv @ [(p, bind)]\<rparr>"

subsection \<open>The response\<close>

text \<open>
  \<^verbatim>\<open>res.status(code)\<close> sets the status code, \<^verbatim>\<open>res.json(value)\<close> writes the body.
\<close>

record Response =
  statusCode :: int
  body :: "json option"

definition status :: "int \<Rightarrow> Response \<Rightarrow> Response" where
  "status code res = res\<lparr>statusCode := code\<rparr>"

definition res_json :: "json \<Rightarrow> Response \<Rightarrow> Response" where
  "res_json v res = res\<lparr>body := Some v\<rparr>"

subsection \<open>class App\<close>

text \<open>
  The fields of lines 27 to 37. \<^verbatim>\<open>logger\<close> is \<^verbatim>\<open>None\<close> when the constructor was given
  no logger (the constructor tests \<^verbatim>\<open>if (logger)\<close>), \<^verbatim>\<open>port\<close> is \<^verbatim>\<open>None\<close> while it is
  \<^verbatim>\<open>undefined\<close>.
\<close>

record App =
  logger :: "LoggerInstance option"
  server :: express
  port :: "js_number option"
  options :: CorsOptions

text \<open>The initialiser of the field \<^verbatim>\<open>options\<close> (lines 31 to 37).\<close>

definition App_options :: CorsOptions where
  "App_options =
     \<lparr>allowedHeaders =
        [''Origin'', ''X-Requested-With'', ''Content-Type'', ''Accept'', ''X-Access-Token''],
      credentials = True,
      methods = ''GET,HEAD,OPTIONS,PUT,PATCH,POST,DELETE'',
      origin = ''*'',
      preflightContinue = False\<rparr>"

text \<open>
  \<^verbatim>\<open>String.prototype.split\<close> with a separator of one character: the string is read
  from the left, \<^verbatim>\<open>cur\<close> holds the piece read since the last separator, and every
  separator closes a piece. The empty string gives one empty piece.
\<close>

fun split_from :: "char \<Rightarrow> string \<Rightarrow> string \<Rightarrow> string list" where
  "split_from sep cur [] = [cur]"
| "split_from sep cur (c # cs) =
     (if c = sep then cur # split_from sep [] cs else split_from sep (cur @ [c]) cs)"

definition split :: "char \<Rightarrow> string \<Rightarrow> string list" where
  "split sep s = split_from sep [] s"

text \<open>
  The method \<^verbatim>\<open>write\<close> of \<^verbatim>\<open>logStream\<close> (lines 47 to 49), on the logger the constructor
  was given:
  \<^verbatim>\<open>message.split("\n").filter(msg => msg.length > 0).forEach(msg => logger.info(msg))\<close>.
\<close>

definition logStream_write :: "string \<Rightarrow> LoggerInstance \<Rightarrow> LoggerInstance" where
  "logStream_write message' lg =
     foldl (\<lambda>l msg. logger_info msg l) lg
       (filter (\<lambda>msg. length msg > 0) (split (CHR 0x0A) message'))"

text \<open>The constructor of \<^verbatim>\<open>App\<close> (lines 38 to 62).\<close>

definition App_constructor :: "LoggerInstance option \<Rightarrow> App" where
  "App_constructor lg =
     (let srv = express_new;
          srv = server_use compression srv;
          srv = (if lg \<noteq> None then server_use (morgan ''combined'' logStream) srv else srv);
          srv = server_use bodyParser_json srv;
          srv = server_use (bodyParser_urlencoded True) srv;
          srv = server_use expressValidator srv;
          srv = server_use (cors App_options) srv
      in \<lparr>logger = lg, server = srv, port = None, options = App_options\<rparr>)"

text \<open>
  \<^verbatim>\<open>handleErrors\<close> (lines 63 to 75). \<^verbatim>\<open>this.logger.error\<close> raises a TypeError when
  \<^verbatim>\<open>this.logger\<close> is undefined; \<^verbatim>\<open>if (error.stack)\<close> holds for a stack that is a
  non-empty string. The result is the exception raised, or the gateway (its logger has
  received the calls) and the response.
\<close>

definition handleErrors ::
  "App \<Rightarrow> js_error \<Rightarrow> 'req \<Rightarrow> Response \<Rightarrow> 'next \<Rightarrow> exception + (App \<times> Response)" where
  "handleErrors this err req res next =
     (case logger this of
        None \<Rightarrow> Inl TypeError
      | Some lg \<Rightarrow>
          (let lg = logger_error (message err) lg;
               lg = (case stack err of
                       None \<Rightarrow> lg
                     | Some s \<Rightarrow> if s \<noteq> [] then logger_error s lg else lg);
               res = (case err of
                        OrbError m s code \<Rightarrow>
                          res_json (JObject [(''error'', JString (message err))])
                            (status code res)
                      | Error m s \<Rightarrow>
                          res_json (JObject [(''error'', JString (message err))])
                            (status 500 res))
           in Inr (this\<lparr>logger := Some lg\<rparr>, res)))"

text \<open>
  The promise \<^verbatim>\<open>start\<close> returns. \<^verbatim>\<open>resolve\<close> and \<^verbatim>\<open>reject\<close> settle a pending promise
  and leave a settled one as it is.
\<close>

datatype promise = Pending | Resolved | Rejected js_error

definition resolve :: "promise \<Rightarrow> promise" where
  "resolve p = (case p of Pending \<Rightarrow> Resolved | _ \<Rightarrow> p)"

definition reject :: "js_error \<Rightarrow> promise \<Rightarrow> promise" where
  "reject e p = (case p of Pending \<Rightarrow> Rejected e | _ \<Rightarrow> p)"

text \<open>
  The callback \<^verbatim>\<open>start\<close> gives to \<^verbatim>\<open>listen\<close> (lines 81 to 87), on its argument
  \<^verbatim>\<open>error\<close> (\<^verbatim>\<open>None\<close> when it is called with no argument):
  \<^verbatim>\<open>if (error) { reject(error); } else { resolve(); }\<close>.
\<close>

definition listen_callback :: "js_error option \<Rightarrow> promise \<Rightarrow> promise" where
  "listen_callback arg p =
     (case arg of Some e \<Rightarrow> reject e p | None \<Rightarrow> resolve p)"

text \<open>
  What becomes of the bind that \<^verbatim>\<open>listen\<close> starts: the server listens, or the bind fails
  with an error (the port is in use, permission is denied).
\<close>

datatype bind_outcome = Listening | BindFailure js_error

text \<open>
  What the server does with the callback given to \<^verbatim>\<open>listen\<close>. The library is not part of
  the file; this is its documented behaviour. \<^verbatim>\<open>app.listen\<close> of express 4 hands its
  arguments to \<^verbatim>\<open>server.listen\<close> of node, which adds the callback as a listener of the
  event \<^verbatim>\<open>listening\<close>: it is called once, with no argument, when the server listens; when
  the bind fails the server emits the event \<^verbatim>\<open>error\<close> and the callback is not called.
  The result is the arguments of the calls of the callback, in order.
\<close>

definition listen_calls :: "bind_outcome \<Rightarrow> js_error option list" where
  "listen_calls outcome = (case outcome of Listening \<Rightarrow> [None] | BindFailure e \<Rightarrow> [])"

text \<open>
  \<^verbatim>\<open>Number(port)\<close>: a number is returned as it is; a string is converted by the
  language's string-to-number conversion, which the model takes as the argument
  \<^verbatim>\<open>StringToNumber\<close>.
\<close>

definition Number :: "(string \<Rightarrow> js_number) \<Rightarrow> port_arg \<Rightarrow> js_number" where
  "Number StringToNumber p =
     (case p of PortNumber n \<Rightarrow> n | PortString s \<Rightarrow> StringToNumber s)"

text \<open>
  \<^verbatim>\<open>start\<close> (lines 77 to 89). The executor of the promise sets the field and the
  setting and calls \<^verbatim>\<open>listen\<close> with the callback; the promise starts pending and is
  settled by the calls the server makes of the callback. \<^verbatim>\<open>outcome\<close> is the outcome of
  the bind. The result is the gateway after the call and the promise, as it is once the
  bind has come to its outcome.
\<close>

definition start ::
  "(string \<Rightarrow> js_number) \<Rightarrow> port_arg \<Rightarrow> string \<Rightarrow> bind_outcome \<Rightarrow> App \<Rightarrow> App \<times> promise" where
  "start StringToNumber p bind outcome this =
     (let this = this\<lparr>port := Some (Number StringToNumber p)\<rparr>;
          this = this\<lparr>server := server_set ''port'' p (server this)\<rparr>;
          this = this\<lparr>server := server_listen p bind (server this)\<rparr>
      in (this, foldl (\<lambda>pr arg. listen_callback arg pr) Pending (listen_calls outcome)))"

subsection \<open>class PublicApp\<close>

text \<open>
  The constructor of lines 96 to 111. \<^verbatim>\<open>messageBroker: MessageBroker\<close> and
  \<^verbatim>\<open>peerHandler: PeerHandler\<close> are objects of these classes, given by their identities.
\<close>

definition PublicApp :: "LoggerInstance option \<Rightarrow> nat \<Rightarrow> nat \<Rightarrow> App" where
  "PublicApp lg messageBroker peerHandler =
     (let this = App_constructor lg;
          srv = server this;
          srv = server_get ''/api/status'' (publicApiController ''getStatus'' []) srv;
          srv = server_get ''/api/peers''
                  (publicApiController ''getPeers'' [PeerHandler peerHandler]) srv;
          srv = server_post ''/api/peers''
                  (publicApiController ''becomePeer'' [PeerHandler peerHandler]) srv;
          srv = server_post ''/api/tokens''
                  (publicApiController ''newToken'' [MessageBroker messageBroker]) srv;
          srv = server_post ''/api/transactions''
                  (publicApiController ''newTransactionPartial'' [MessageBroker messageBroker]) srv;
          srv = server_post ''/api/transactions/sign''
                  (publicApiController ''newTransactionFull'' [MessageBroker messageBroker]) srv;
          srv = server_post ''/api/blocks''
                  (publicApiController ''blockMined'' [MessageBroker messageBroker]) srv;
          srv = server_get ''/api/blocks''
                  (publicApiController ''getBlockHashes'' [MessageBroker messageBroker]) srv;
          srv = server_get ''/api/blockheight''
                  (publicApiController ''getBlockHeight'' [MessageBroker messageBroker]) srv;
          srv = server_get ''/api/blocks/:blockHash''
                  (publicApiController ''getBlockByHash'' [MessageBroker messageBroker]) srv;
          srv = server_use handleErrorsMiddleware srv;
          srv = server_options ''*'' (cors (options this)) srv
      in this\<lparr>server := srv\<rparr>)"

subsection \<open>class PrivateApp\<close>

text \<open>The constructor of lines 117 to 134.\<close>

definition PrivateApp :: "LoggerInstance option \<Rightarrow> nat \<Rightarrow> App" where
  "PrivateApp lg messageBroker =
     (let this = App_constructor lg;
          srv = server this;
          srv = server_get ''/api/stop'' (privateApiController ''stop'' []) srv;
          srv = server_get ''/api/status'' (privateApiController ''getStatus'' []) srv;
          srv = server_post ''/api/wallet''
                  (privateApiController ''createWallet'' [MessageBroker messageBroker]) srv;
          srv = server_get ''/api/wallet/balances/:tokenHash''
                  (privateApiController ''getBalances'' [MessageBroker messageBroker]) srv;
          srv = server_get ''/api/wallet/balances/:betaPublicKey/:tokenHash''
                  (privateApiController ''getBilateralBalances'' [MessageBroker messageBroker]) srv;
          srv = server_post ''/api/tokens''
                  (privateApiController ''createToken'' [MessageBroker messageBroker]) srv;
          srv = server_get ''/api/tokens''
                  (privateApiController ''listTokens'' [MessageBroker messageBroker]) srv;
          srv = server_post ''/api/transactions''
                  (privateApiController ''createPartialTransaction'' [MessageBroker messageBroker]) srv;
          srv = server_get ''/api/transactions''
                  (privateApiController ''listPartialTransaction'' [MessageBroker messageBroker]) srv;
          srv = server_post ''/api/transactions/sign''
                  (privateApiController ''createFullTransaction'' [MessageBroker messageBroker]) srv;
          srv = server_get ''/api/options''
                  (privateApiController ''listExercisableOptions'' [MessageBroker messageBroker]) srv;
          srv = server_post ''/api/options/exercise''
                  (privateApiController ''exerciseOption'' [MessageBroker messageBroker]) srv;
          srv = server_use handleErrorsMiddleware srv;
          srv = server_options ''*'' (cors (options this)) srv
      in this\<lparr>server := srv\<rparr>)"

subsection \<open>Reading the server\<close>

text \<open>
  A resource route is a layer registered with \<^verbatim>\<open>server.get\<close> or \<^verbatim>\<open>server.post\<close>.
\<close>

fun is_route :: "layer \<Rightarrow> bool" where
  "is_route (route m path h) = True"
| "is_route (use m) = False"

fun is_resource_route :: "layer \<Rightarrow> bool" where
  "is_resource_route (route GET path h) = True"
| "is_resource_route (route POST path h) = True"
| "is_resource_route (route OPTIONS path h) = False"
| "is_resource_route (use m) = False"

definition resource_routes :: "App \<Rightarrow> layer list" where
  "resource_routes app = filter is_resource_route (layers (server app))"

text \<open>
  The route bindings of a gateway: method, path and the dependencies given to the
  controller, for every route whose handler is a controller, in registration order.
\<close>

fun binding :: "layer \<Rightarrow> (http_method \<times> string \<times> dependency list) list" where
  "binding (route m path (publicApiController f deps)) = [(m, path, deps)]"
| "binding (route m path (privateApiController f deps)) = [(m, path, deps)]"
| "binding l = []"

definition route_bindings :: "App \<Rightarrow> (http_method \<times> string \<times> dependency list) list" where
  "route_bindings app = concat (map binding (layers (server app)))"

text \<open>The policies of the CORS middlewares on the server, in registration order.\<close>

fun cors_policy :: "layer \<Rightarrow> CorsOptions list" where
  "cors_policy (use (cors opts)) = [opts]"
| "cors_policy (route m path (cors opts)) = [opts]"
| "cors_policy l = []"

definition cors_policies :: "App \<Rightarrow> CorsOptions list" where
  "cors_policies app = concat (map cors_policy (layers (server app)))"

text \<open>
  \<^verbatim>\<open>Array.prototype.join\<close> with a separator of one character, the inverse of
  \<^verbatim>\<open>split\<close>.
\<close>

fun join :: "char \<Rightarrow> string list \<Rightarrow> string" where
  "join sep [] = []"
| "join sep [s] = s"
| "join sep (s # t # ts) = s @ sep # join sep (t # ts)"

subsection \<open>The route table of the specification\<close>

text \<open>
  The public route table as the specification gives it (section 4.2): method, path and
  the column \<^emph>\<open>Depends on\<close>.
\<close>

datatype depends_on = no_dependency | Peer_handler | Message_Broker

definition public_route_table :: "(http_method \<times> string \<times> depends_on) list" where
  "public_route_table =
     [(GET, ''/api/status'', no_dependency),
      (GET, ''/api/peers'', Peer_handler),
      (POST, ''/api/peers'', Peer_handler),
      (POST, ''/api/tokens'', Message_Broker),
      (POST, ''/api/transactions'', Message_Broker),
      (POST, ''/api/transactions/sign'', Message_Broker),
      (POST, ''/api/blocks'', Message_Broker),
      (GET, ''/api/blocks'', Message_Broker),
      (GET, ''/api/blockheight'', Message_Broker),
      (GET, ''/api/blocks/:blockHash'', Message_Broker)]"

text \<open>
  What a row of the table declares for a gateway built with the broker
  \<^verbatim>\<open>messageBroker\<close> and the peer handler \<^verbatim>\<open>peerHandler\<close>: the dependencies its binding
  is to be given.
\<close>

fun declared :: "nat \<Rightarrow> nat \<Rightarrow> depends_on \<Rightarrow> dependency list" where
  "declared messageBroker peerHandler no_dependency = []"
| "declared messageBroker peerHandler Peer_handler = [PeerHandler peerHandler]"
| "declared messageBroker peerHandler Message_Broker = [MessageBroker messageBroker]"

section \<open>Properties\<close>

subsection \<open>Splitting and joining\<close>

lemma split_from_not_Nil: "split_from sep cur s \<noteq> []"
  by (induction s arbitrary: cur) auto

lemma join_Cons: "ys \<noteq> [] \<Longrightarrow> join sep (x # ys) = x @ sep # join sep ys"
  by (cases ys) auto

lemma join_split_from: "join sep (split_from sep cur s) = cur @ s"
  by (induction s arbitrary: cur) (auto simp: join_Cons split_from_not_Nil)

lemma split_from_no_sep:
  "sep \<notin> set cur \<Longrightarrow> seg \<in> set (split_from sep cur s) \<Longrightarrow> sep \<notin> set seg"
proof (induction s arbitrary: cur)
  case Nil
  then show ?case by simp
next
  case (Cons c cs)
  show ?case
  proof (cases "c = sep")
    case True
    with Cons.prems have "seg = cur \<or> seg \<in> set (split_from sep [] cs)" by simp
    then show ?thesis
    proof
      assume "seg = cur"
      with Cons.prems show ?thesis by simp
    next
      assume "seg \<in> set (split_from sep [] cs)"
      then show ?thesis using Cons.IH [of "[]"] by simp
    qed
  next
    case False
    with Cons.prems have "seg \<in> set (split_from sep (cur @ [c]) cs)" by simp
    moreover have "sep \<notin> set (cur @ [c])" using False Cons.prems by auto
    ultimately show ?thesis using Cons.IH [of "cur @ [c]"] by blast
  qed
qed

lemma split_from_piece:
  "sep \<notin> set seg \<Longrightarrow> split_from sep cur (seg @ sep # rest) = (cur @ seg) # split_from sep [] rest"
  by (induction seg arbitrary: cur) auto

lemma split_from_last: "sep \<notin> set seg \<Longrightarrow> split_from sep cur seg = [cur @ seg]"
  by (induction seg arbitrary: cur) auto

text \<open>
  Splitting is determined by joining: a non-empty list of pieces without the separator
  is what \<^verbatim>\<open>split\<close> gives back for the pieces joined.
\<close>

lemma split_join:
  "segs \<noteq> [] \<Longrightarrow> \<forall>seg\<in>set segs. sep \<notin> set seg \<Longrightarrow> split sep (join sep segs) = segs"
proof (induction sep segs rule: join.induct)
  case (1 sep)
  then show ?case by simp
next
  case (2 sep s)
  then show ?case by (simp add: split_def split_from_last)
next
  case (3 sep s t ts)
  have "split sep (join sep (s # t # ts)) = s # split sep (join sep (t # ts))"
    using "3.prems" by (simp add: split_def split_from_piece)
  also have "split sep (join sep (t # ts)) = t # ts"
    using 3 by simp
  finally show ?case .
qed

lemma foldl_logger_info: "foldl (\<lambda>l msg. logger_info msg l) lg segs = lg @ map info segs"
  by (induction segs arbitrary: lg) (auto simp: logger_info_def)

subsection \<open>The access-log stream\<close>

text \<open>
  C8. Writing a message to the access-log stream appends to the logger's calls one
  \<^verbatim>\<open>info\<close> call for every non-empty piece of the message split at the newline
  characters, in the order of the pieces, and nothing for an empty piece. The pieces are
  those of the message: joined with newlines they give the message back, and none holds a
  newline.
\<close>

theorem logStream_write_emits:
  "logStream_write m lg = lg @ map info (filter (\<lambda>seg. seg \<noteq> []) (split (CHR 0x0A) m))
   \<and> join (CHR 0x0A) (split (CHR 0x0A) m) = m
   \<and> list_all (\<lambda>seg. CHR 0x0A \<notin> set seg) (split (CHR 0x0A) m)"
proof -
  have "(\<lambda>msg::string. 0 < length msg) = (\<lambda>seg. seg \<noteq> [])" by auto
  then have "logStream_write m lg = lg @ map info (filter (\<lambda>seg. seg \<noteq> []) (split (CHR 0x0A) m))"
    by (simp only: logStream_write_def foldl_logger_info)
  moreover have "list_all (\<lambda>seg. CHR 0x0A \<notin> set seg) (split (CHR 0x0A) m)"
    unfolding list_all_iff split_def using split_from_no_sep [of "CHR 0x0A" "[]"] by auto
  moreover have "join (CHR 0x0A) (split (CHR 0x0A) m) = m"
    by (simp add: split_def join_split_from)
  ultimately show ?thesis by blast
qed

text \<open>
  An access-log message of two lines with an empty line between them and a newline at
  its end gives two calls.
\<close>

theorem logStream_write_emits_witness:
  "logStream_write (''GET /api/status 200'' @ [CHR 0x0A, CHR 0x0A] @ ''POST /api/peers 500'' @ [CHR 0x0A]) [info ''up'']
     = [info ''up'', info ''GET /api/status 200'', info ''POST /api/peers 500'']"
  using logStream_write_emits [of "''GET /api/status 200'' @ [CHR 0x0A, CHR 0x0A] @ ''POST /api/peers 500'' @ [CHR 0x0A]" "[info ''up'']"]
  by (simp add: split_def)

subsection \<open>The layers the constructors register\<close>

lemmas server_ops =
  server_use_def server_get_def server_post_def server_options_def express_new_def

lemma App_constructor_layers:
  "layers (server (App_constructor lg)) =
     [use compression] @
     (case lg of Some l \<Rightarrow> [use (morgan ''combined'' logStream)] | None \<Rightarrow> []) @
     [use bodyParser_json, use (bodyParser_urlencoded True), use expressValidator,
      use (cors App_options)]"
  by (cases lg) (simp_all add: App_constructor_def server_ops)

lemma App_constructor_fields:
  "logger (App_constructor lg) = lg" "port (App_constructor lg) = None"
  "options (App_constructor lg) = App_options"
  "settings (server (App_constructor lg)) = Map.empty"
  "listening (server (App_constructor lg)) = []"
  by (simp_all add: App_constructor_def server_ops Let_def)

lemma PublicApp_layers:
  "layers (server (PublicApp lg mb ph)) =
     layers (server (App_constructor lg)) @
     [route GET ''/api/status'' (publicApiController ''getStatus'' []),
      route GET ''/api/peers'' (publicApiController ''getPeers'' [PeerHandler ph]),
      route POST ''/api/peers'' (publicApiController ''becomePeer'' [PeerHandler ph]),
      route POST ''/api/tokens'' (publicApiController ''newToken'' [MessageBroker mb]),
      route POST ''/api/transactions''
        (publicApiController ''newTransactionPartial'' [MessageBroker mb]),
      route POST ''/api/transactions/sign''
        (publicApiController ''newTransactionFull'' [MessageBroker mb]),
      route POST ''/api/blocks'' (publicApiController ''blockMined'' [MessageBroker mb]),
      route GET ''/api/blocks'' (publicApiController ''getBlockHashes'' [MessageBroker mb]),
      route GET ''/api/blockheight'' (publicApiController ''getBlockHeight'' [MessageBroker mb]),
      route GET ''/api/blocks/:blockHash''
        (publicApiController ''getBlockByHash'' [MessageBroker mb])] @
     [use handleErrorsMiddleware, route OPTIONS ''*'' (cors App_options)]"
  by (simp add: PublicApp_def server_ops Let_def App_constructor_fields)

lemma PrivateApp_layers:
  "layers (server (PrivateApp lg mb)) =
     layers (server (App_constructor lg)) @
     [route GET ''/api/stop'' (privateApiController ''stop'' []),
      route GET ''/api/status'' (privateApiController ''getStatus'' []),
      route POST ''/api/wallet'' (privateApiController ''createWallet'' [MessageBroker mb]),
      route GET ''/api/wallet/balances/:tokenHash''
        (privateApiController ''getBalances'' [MessageBroker mb]),
      route GET ''/api/wallet/balances/:betaPublicKey/:tokenHash''
        (privateApiController ''getBilateralBalances'' [MessageBroker mb]),
      route POST ''/api/tokens'' (privateApiController ''createToken'' [MessageBroker mb]),
      route GET ''/api/tokens'' (privateApiController ''listTokens'' [MessageBroker mb]),
      route POST ''/api/transactions''
        (privateApiController ''createPartialTransaction'' [MessageBroker mb]),
      route GET ''/api/transactions''
        (privateApiController ''listPartialTransaction'' [MessageBroker mb]),
      route POST ''/api/transactions/sign''
        (privateApiController ''createFullTransaction'' [MessageBroker mb]),
      route GET ''/api/options''
        (privateApiController ''listExercisableOptions'' [MessageBroker mb]),
      route POST ''/api/options/exercise''
        (privateApiController ''exerciseOption'' [MessageBroker mb])] @
     [use handleErrorsMiddleware, route OPTIONS ''*'' (cors App_options)]"
  by (simp add: PrivateApp_def server_ops Let_def App_constructor_fields)

lemma PublicApp_fields:
  "logger (PublicApp lg mb ph) = lg" "port (PublicApp lg mb ph) = None"
  "options (PublicApp lg mb ph) = App_options"
  by (simp_all add: PublicApp_def Let_def App_constructor_fields)

lemma PrivateApp_fields:
  "logger (PrivateApp lg mb) = lg" "port (PrivateApp lg mb) = None"
  "options (PrivateApp lg mb) = App_options"
  by (simp_all add: PrivateApp_def Let_def App_constructor_fields)

lemma last_two_layers:
  assumes "L = A @ [e, f]" and "\<not> P e" and "\<not> P f"
  shows "L ! (length L - 2) = e \<and> L ! (length L - 1) = f \<and>
         (\<forall>i<length L. P (L ! i) \<longrightarrow> i < length L - 2)"
proof -
  have n: "length L = length A + 2" using assms(1) by simp
  have e: "L ! (length L - 2) = e" using assms(1) by (simp add: nth_append)
  have o: "L ! (length L - 1) = f" using assms(1) by (simp add: nth_append)
  have "\<forall>i<length L. P (L ! i) \<longrightarrow> i < length L - 2"
  proof (intro allI impI)
    fix i assume i: "i < length L" and p: "P (L ! i)"
    show "i < length L - 2"
    proof (rule ccontr)
      assume "\<not> i < length L - 2"
      with i n have "i = length A \<or> i = length A + 1" by arith
      then have "L ! i = e \<or> L ! i = f" using assms(1) by (auto simp: nth_append)
      with p assms(2,3) show False by auto
    qed
  qed
  with e o show ?thesis by simp
qed

lemma App_constructor_no_resource_route:
  "filter is_resource_route (layers (server (App_constructor lg))) = []"
  by (cases lg) (simp_all add: App_constructor_layers)

lemma PublicApp_resource_routes:
  "layers (server (PublicApp lg mb ph)) =
     layers (server (App_constructor lg)) @ resource_routes (PublicApp lg mb ph) @
     [use handleErrorsMiddleware, route OPTIONS ''*'' (cors App_options)]"
  "length (resource_routes (PublicApp lg mb ph)) = 10"
  by (simp_all add: resource_routes_def PublicApp_layers App_constructor_no_resource_route)

lemma PrivateApp_resource_routes:
  "layers (server (PrivateApp lg mb)) =
     layers (server (App_constructor lg)) @ resource_routes (PrivateApp lg mb) @
     [use handleErrorsMiddleware, route OPTIONS ''*'' (cors App_options)]"
  "length (resource_routes (PrivateApp lg mb)) = 12"
  by (simp_all add: resource_routes_def PrivateApp_layers App_constructor_no_resource_route)

text \<open>
  C5. The constructor of the gateway base registers, in this order: compression, the
  access log (morgan) exactly when it was given a logger, the JSON body parser, the
  URL-encoded body parser with \<^verbatim>\<open>extended: true\<close>, the validation helpers and CORS
  with the fixed policy. None of these layers is a route, and on both surfaces they come
  first: the layers of the surface start with them.
\<close>

theorem App_constructor_pipeline:
  "layers (server (App_constructor lg)) =
     [use compression] @
     (case lg of Some l \<Rightarrow> [use (morgan ''combined'' logStream)] | None \<Rightarrow> []) @
     [use bodyParser_json, use (bodyParser_urlencoded True), use expressValidator,
      use (cors App_options)]
   \<and> (use (morgan ''combined'' logStream) \<in> set (layers (server (App_constructor lg))))
       = (lg \<noteq> None)
   \<and> filter is_route (layers (server (App_constructor lg))) = []
   \<and> take (length (layers (server (App_constructor lg)))) (layers (server (PublicApp lg mb ph)))
       = layers (server (App_constructor lg))
   \<and> take (length (layers (server (App_constructor lg)))) (layers (server (PrivateApp lg mb)))
       = layers (server (App_constructor lg))"
proof -
  have a: "(use (morgan ''combined'' logStream) \<in> set (layers (server (App_constructor lg))))
       = (lg \<noteq> None)"
    by (cases lg) (simp_all add: App_constructor_layers)
  have b: "filter is_route (layers (server (App_constructor lg))) = []"
    by (cases lg) (simp_all add: App_constructor_layers)
  have c: "take (length (layers (server (App_constructor lg)))) (layers (server (PublicApp lg mb ph)))
       = layers (server (App_constructor lg))"
    by (simp add: PublicApp_layers)
  have d: "take (length (layers (server (App_constructor lg)))) (layers (server (PrivateApp lg mb)))
       = layers (server (App_constructor lg))"
    by (simp add: PrivateApp_layers)
  show ?thesis using App_constructor_layers [of lg] a b c d by blast
qed

text \<open>
  C2. On the public and on the private surface the layers are those of the base, then
  the resource routes, then the error handler, then the \<^verbatim>\<open>OPTIONS *\<close> responder. So the
  error handler is the last layer but one, the preflight responder is the last, and every
  resource route stands before the error handler.
\<close>

theorem error_handler_after_routes_before_preflight:
  fixes lg mb ph
  defines "pub \<equiv> layers (server (PublicApp lg mb ph))"
    and "priv \<equiv> layers (server (PrivateApp lg mb))"
  shows
  "pub = layers (server (App_constructor lg)) @ resource_routes (PublicApp lg mb ph) @
         [use handleErrorsMiddleware, route OPTIONS ''*'' (cors App_options)]
   \<and> pub ! (length pub - 2) = use handleErrorsMiddleware
   \<and> pub ! (length pub - 1) = route OPTIONS ''*'' (cors App_options)
   \<and> (\<forall>i<length pub. is_resource_route (pub ! i) \<longrightarrow> i < length pub - 2)
   \<and> priv = layers (server (App_constructor lg)) @ resource_routes (PrivateApp lg mb) @
         [use handleErrorsMiddleware, route OPTIONS ''*'' (cors App_options)]
   \<and> priv ! (length priv - 2) = use handleErrorsMiddleware
   \<and> priv ! (length priv - 1) = route OPTIONS ''*'' (cors App_options)
   \<and> (\<forall>i<length priv. is_resource_route (priv ! i) \<longrightarrow> i < length priv - 2)"
proof -
  let ?e = "use handleErrorsMiddleware" and ?f = "route OPTIONS ''*'' (cors App_options)"
  have e: "\<not> is_resource_route ?e" and f: "\<not> is_resource_route ?f" by simp_all
  have pub: "pub = (layers (server (App_constructor lg)) @ resource_routes (PublicApp lg mb ph)) @ [?e, ?f]"
    unfolding pub_def using PublicApp_resource_routes(1) [of lg mb ph] by simp
  have priv: "priv = (layers (server (App_constructor lg)) @ resource_routes (PrivateApp lg mb)) @ [?e, ?f]"
    unfolding priv_def using PrivateApp_resource_routes(1) [of lg mb] by simp
  show ?thesis
    using last_two_layers [OF pub e f] last_two_layers [OF priv e f] pub priv
    by (simp only: append_assoc) blast
qed

text \<open>
  The public gateway without a logger has seventeen layers: the last resource route is
  layer 14, the error handler layer 15 and the preflight responder layer 16. The private
  gateway with a logger has twenty: the last resource route is layer 17.
\<close>

theorem error_handler_after_routes_before_preflight_witness:
  "is_resource_route (layers (server (PublicApp None 1 2)) ! 14)
   \<and> (14::nat) < length (layers (server (PublicApp None 1 2))) - 2
   \<and> layers (server (PublicApp None 1 2)) ! 15 = use handleErrorsMiddleware
   \<and> layers (server (PublicApp None 1 2)) ! 16 = route OPTIONS ''*'' (cors App_options)
   \<and> is_resource_route (layers (server (PrivateApp (Some []) 1)) ! 17)
   \<and> (17::nat) < length (layers (server (PrivateApp (Some []) 1))) - 2"
proof -
  have n: "length (layers (server (PublicApp None 1 2))) = 17"
    by (simp add: PublicApp_layers App_constructor_layers)
  have r: "is_resource_route (layers (server (PublicApp None 1 2)) ! 14)"
    by (simp add: PublicApp_layers App_constructor_layers)
  have m: "length (layers (server (PrivateApp (Some []) 1))) = 20"
    by (simp add: PrivateApp_layers App_constructor_layers)
  have q: "is_resource_route (layers (server (PrivateApp (Some []) 1)) ! 17)"
    by (simp add: PrivateApp_layers App_constructor_layers)
  note t = error_handler_after_routes_before_preflight [of None 1 2]
  note u = error_handler_after_routes_before_preflight [of "Some []" 1 2]
  from t have t1:
    "layers (server (PublicApp None 1 2)) ! (length (layers (server (PublicApp None 1 2))) - 2)
       = use handleErrorsMiddleware"
    and t2:
    "layers (server (PublicApp None 1 2)) ! (length (layers (server (PublicApp None 1 2))) - 1)
       = route OPTIONS ''*'' (cors App_options)"
    and t3:
    "\<forall>i<length (layers (server (PublicApp None 1 2))).
       is_resource_route (layers (server (PublicApp None 1 2)) ! i) \<longrightarrow>
       i < length (layers (server (PublicApp None 1 2))) - 2"
    by blast+
  from u have u3:
    "\<forall>i<length (layers (server (PrivateApp (Some []) 1))).
       is_resource_route (layers (server (PrivateApp (Some []) 1)) ! i) \<longrightarrow>
       i < length (layers (server (PrivateApp (Some []) 1))) - 2"
    by blast
  have "(14::nat) < length (layers (server (PublicApp None 1 2))) - 2"
    using t3 [rule_format, of 14] r n by simp
  moreover have "(17::nat) < length (layers (server (PrivateApp (Some []) 1))) - 2"
    using u3 [rule_format, of 17] q m by simp
  moreover have "layers (server (PublicApp None 1 2)) ! 15 = use handleErrorsMiddleware"
    using t1 n by simp
  moreover have
    "layers (server (PublicApp None 1 2)) ! 16 = route OPTIONS ''*'' (cors App_options)"
    using t2 n by simp
  ultimately show ?thesis using r q by blast
qed

text \<open>
  C4. The route bindings of the public surface are the ten rows of the specification's
  route table, in its order, each with the dependencies its row declares: none for the
  status route, the peer handler alone for the two routes of \<^verbatim>\<open>/api/peers\<close>, the message
  broker alone for the others.
\<close>

theorem PublicApp_route_table:
  "route_bindings (PublicApp lg mb ph) =
     map (\<lambda>(m, path, d). (m, path, declared mb ph d)) public_route_table
   \<and> length (route_bindings (PublicApp lg mb ph)) = 10"
proof -
  have "concat (map binding (layers (server (App_constructor lg)))) = []"
    by (cases lg) (simp_all add: App_constructor_layers)
  then show ?thesis
    by (simp add: route_bindings_def PublicApp_layers public_route_table_def)
qed

text \<open>
  C9. The private surface has twelve route bindings. The routes \<^verbatim>\<open>/api/stop\<close> and
  \<^verbatim>\<open>/api/status\<close> are given no dependency, every other one is given the message broker
  and nothing else; the message broker is the only object given to any of them.
\<close>

theorem PrivateApp_dependencies:
  "route_bindings (PrivateApp lg mb) =
     [(GET, ''/api/stop'', []),
      (GET, ''/api/status'', []),
      (POST, ''/api/wallet'', [MessageBroker mb]),
      (GET, ''/api/wallet/balances/:tokenHash'', [MessageBroker mb]),
      (GET, ''/api/wallet/balances/:betaPublicKey/:tokenHash'', [MessageBroker mb]),
      (POST, ''/api/tokens'', [MessageBroker mb]),
      (GET, ''/api/tokens'', [MessageBroker mb]),
      (POST, ''/api/transactions'', [MessageBroker mb]),
      (GET, ''/api/transactions'', [MessageBroker mb]),
      (POST, ''/api/transactions/sign'', [MessageBroker mb]),
      (GET, ''/api/options'', [MessageBroker mb]),
      (POST, ''/api/options/exercise'', [MessageBroker mb])]
   \<and> set (concat (map (\<lambda>(m, path, deps). deps) (route_bindings (PrivateApp lg mb))))
       = {MessageBroker mb}
   \<and> map (\<lambda>(m, path, deps). path)
         (filter (\<lambda>(m, path, deps). deps = []) (route_bindings (PrivateApp lg mb)))
       = [''/api/stop'', ''/api/status'']"
proof -
  have "concat (map binding (layers (server (App_constructor lg)))) = []"
    by (cases lg) (simp_all add: App_constructor_layers)
  then show ?thesis
    by (simp add: route_bindings_def PrivateApp_layers)
qed

text \<open>
  C7. The gateway base and both surfaces hold the same CORS policy, both CORS
  middlewares of a surface (the one of the base and the preflight responder) are built
  from it, and its values are: the five allowed headers, the seven methods, credentials
  allowed, the origin \<^verbatim>\<open>*\<close>, and \<^verbatim>\<open>preflightContinue\<close> false.
\<close>

theorem cors_policy_fixed:
  "options (App_constructor lg) = App_options
   \<and> options (PublicApp lg mb ph) = App_options
   \<and> options (PrivateApp lg mb) = App_options
   \<and> cors_policies (PublicApp lg mb ph) = [App_options, App_options]
   \<and> cors_policies (PrivateApp lg mb) = [App_options, App_options]
   \<and> allowedHeaders App_options =
       [''Origin'', ''X-Requested-With'', ''Content-Type'', ''Accept'', ''X-Access-Token'']
   \<and> split (CHR '','') (methods App_options) =
       [''GET'', ''HEAD'', ''OPTIONS'', ''PUT'', ''PATCH'', ''POST'', ''DELETE'']
   \<and> credentials App_options = True
   \<and> origin App_options = ''*''
   \<and> preflightContinue App_options = False"
proof -
  have "concat (map cors_policy (layers (server (App_constructor lg)))) = [App_options]"
    by (cases lg) (simp_all add: App_constructor_layers)
  then have "cors_policies (PublicApp lg mb ph) = [App_options, App_options]"
    and "cors_policies (PrivateApp lg mb) = [App_options, App_options]"
    by (simp_all add: cors_policies_def PublicApp_layers PrivateApp_layers)
  moreover have "split (CHR '','') (methods App_options) =
       [''GET'', ''HEAD'', ''OPTIONS'', ''PUT'', ''PATCH'', ''POST'', ''DELETE'']"
    by (simp add: App_options_def split_def)
  ultimately show ?thesis
    by (simp add: App_constructor_fields PublicApp_fields PrivateApp_fields)
       (simp add: App_options_def)
qed

subsection \<open>handleErrors\<close>

text \<open>
  On a gateway that holds a logger, \<^verbatim>\<open>handleErrors\<close> logs the message, and the stack
  when it is a non-empty string, and writes the response: the status is the error's
  \<^verbatim>\<open>httpStatusCode\<close> for an instance of \<^verbatim>\<open>OrbError\<close> and 500 for any other error, and
  the body is the object with the one key \<^verbatim>\<open>error\<close> and the error's message.
\<close>

lemma handleErrors_responds:
  assumes "logger this = Some lg"
  shows "handleErrors this err req res next =
     Inr (this\<lparr>logger := Some (lg @ error (message err) #
              (case stack err of None \<Rightarrow> [] | Some s \<Rightarrow> if s \<noteq> [] then [error s] else []))\<rparr>,
          res\<lparr>statusCode := (case err of OrbError m s code \<Rightarrow> code | Error m s \<Rightarrow> 500),
              body := Some (JObject [(''error'', JString (message err))])\<rparr>)"
  using assms
  by (cases err; cases "stack err")
     (simp_all add: handleErrors_def logger_error_def status_def res_json_def)

text \<open>
  Of its own statements only the read of \<^verbatim>\<open>this.logger\<close> can raise: with the calls of
  the logger and of the response taken to return, \<^verbatim>\<open>handleErrors\<close> raises exactly on a
  gateway that holds no logger.
\<close>

lemma handleErrors_raises_iff:
  "(\<exists>x. handleErrors this err req res next = Inl x) = (logger this = None)"
  by (cases "logger this") (simp_all add: handleErrors_def Let_def)

text \<open>
  C1. On a private gateway built without a logger, an \<^verbatim>\<open>OrbError\<close> with the status
  code 404 gets no response from \<^verbatim>\<open>handleErrors\<close>: the call raises a TypeError at its
  first statement, before the status and the body are written.
\<close>

theorem handleErrors_OrbError_without_logger:
  "handleErrors (PrivateApp None 1) (OrbError ''token not found'' None 404) ()
     \<lparr>statusCode = 200, body = None\<rparr> () = Inl TypeError"
  by (simp add: handleErrors_def PrivateApp_def App_constructor_def Let_def)

text \<open>
  C6. On a public gateway built without a logger, \<^verbatim>\<open>handleErrors\<close> raises a TypeError
  for an ordinary error.
\<close>

theorem handleErrors_raises_without_logger:
  "handleErrors (PublicApp None 1 2) (Error ''boom'' (Some ''Error: boom'')) ()
     \<lparr>statusCode = 200, body = None\<rparr> () = Inl TypeError"
  by (simp add: handleErrors_def PublicApp_def App_constructor_def Let_def)

subsection \<open>start\<close>

text \<open>
  The callback does what \<^verbatim>\<open>start\<close> means it to: called on a pending promise, it
  resolves it when it is given no error and rejects it with the error it is given.
\<close>

lemma listen_callback_settles:
  "listen_callback None Pending = Resolved"
  "listen_callback (Some e) Pending = Rejected e"
  by (simp_all add: listen_callback_def resolve_def reject_def)

text \<open>
  The promise of \<^verbatim>\<open>start\<close> is resolved when the server listens and stays pending when
  the bind fails: it is never rejected, since the server calls the callback only once it
  listens, and then with no argument. Whatever the outcome, \<^verbatim>\<open>start\<close> calls
  \<^verbatim>\<open>listen\<close> once, with the port and the address it was given.
\<close>

lemma start_promise_outcome:
  "snd (start N p bind outcome this)
     = (case outcome of Listening \<Rightarrow> Resolved | BindFailure e \<Rightarrow> Pending)"
  "snd (start N p bind outcome this) \<noteq> Rejected e"
  "listening (server (fst (start N p bind outcome this))) = listening (server this) @ [(p, bind)]"
  by (cases outcome;
      simp add: start_def Let_def listen_calls_def listen_callback_def resolve_def
        server_listen_def server_set_def)+

text \<open>
  C3. \<^verbatim>\<open>start(8080, "0.0.0.0")\<close> on a public gateway when the port is in use: the bind
  fails, and the promise returned is not rejected with the bind error; it stays pending.
\<close>

theorem start_pending_on_bind_failure:
  "snd (start (\<lambda>s. NaN) (PortNumber (Finite 8080)) ''0.0.0.0''
          (BindFailure (Error ''listen EADDRINUSE: address already in use 0.0.0.0:8080'' None))
          (PublicApp None 1 2))
     = Pending"
  by (simp add: start_def Let_def listen_calls_def)


end
